theory Spec2Isabelle
  imports Complex_Main "HOL-Library.Char_ord" "HOL-Library.List_Lexorder" "HOL-Library.Multiset"
begin

section \<open>Python values, exceptions and the logger\<close>

text \<open>
  The database gateway is the class \<open>DBOracle\<close> of \<open>app/utils.py\<close>. Its three methods
  \<open>log_entry\<close>, \<open>log_feedback\<close> and \<open>fetch_templates\<close> call the \<open>oracledb\<close> driver and the
  \<open>logging\<close> module. A call into the driver either returns or raises. The handlers of the
  source distinguish two classes of exception: \<open>except oracledb.DatabaseError\<close> in
  \<open>get_connection\<close> and \<open>except Exception\<close> in the three operations. Both constructors below
  are instances of \<open>Exception\<close>; \<open>OtherException\<close> stands for every exception class that is
  not a subclass of \<open>oracledb.DatabaseError\<close> (\<open>oracledb.InterfaceError\<close>, \<open>TypeError\<close>,
  \<open>OSError\<close>, ...). The string is the message.
\<close>

datatype py_exn = DatabaseError string | OtherException string

text \<open>A \<open>datetime\<close> value; in Python it is always truthy.\<close>

type_synonym datetime = nat

datatype level = INFO | WARNING | ERROR

text \<open>
  One record of \<open>app.log\<close>: level, message and, for a call with \<open>exc_info=True\<close>, the
  exception being handled.
\<close>

type_synonym log_record = "level \<times> string \<times> py_exn option"

text \<open>Truthiness of a \<open>str\<close> or \<open>None\<close> argument: \<open>None\<close> and the empty string are falsy.\<close>

fun py_truthy :: "string option \<Rightarrow> bool" where
  "py_truthy None = False"
| "py_truthy (Some s) = (s \<noteq> [])"

fun py_str :: "string option \<Rightarrow> string" where
  "py_str None = []"
| "py_str (Some s) = s"

text \<open>Decimal rendering of integers, as an f-string does it.\<close>

fun str_nat :: "nat \<Rightarrow> string" where
  "str_nat n =
     (if n < 10 then [''0123456789'' ! n]
      else str_nat (n div 10) @ [''0123456789'' ! (n mod 10)])"

definition str_int :: "int \<Rightarrow> string" where
  "str_int i = (if i < 0 then CHR ''-'' # str_nat (nat (- i)) else str_nat (nat i))"

section \<open>The data model\<close>

text \<open>The object state set by \<open>DBOracle.__init__\<close>.\<close>

record DBOracle =
  user :: string
  password :: string
  dsn :: string

text \<open>The parameters of \<open>log_entry\<close>; every parameter after \<open>input_message\<close> defaults to \<open>None\<close>.\<close>

record entry_args =
  event :: string
  model :: string
  input_message :: "string option"
  output_message :: "string option"
  input_tokens :: "int option"
  output_tokens :: "int option"
  duration :: "real option"
  error_message :: "string option"
  user_id :: "int option"
  user_rating :: "int option"
  user_feedback :: "string option"
  created_date :: "datetime option"
  custom_prompt :: "string option"

datatype connection = Connection nat

datatype cursor = Cursor_of connection

datatype lob = Lob nat

text \<open>
  The dictionary of bind values that \<open>log_entry\<close> passes to \<open>cursor.execute\<close>. It has no
  entry for \<open>LOGID\<close>: the statement text takes that column from
  \<open>SQ_INTELLINOTES_LOG.NEXTVAL\<close>.
\<close>

record log_binds =
  b_event :: string
  b_model :: string
  b_input_message :: "lob option"
  b_output_message :: "lob option"
  b_input_tokens :: "int option"
  b_output_tokens :: "int option"
  b_duration :: "real option"
  b_error_message :: "string option"
  b_user_id :: "int option"
  b_user_rating :: "int option"
  b_user_feedback :: "string option"
  b_created_date :: datetime
  b_custom_prompt :: "lob option"

text \<open>The dictionary of bind values of \<open>log_feedback\<close>.\<close>

record feedback_binds =
  f_logid :: int
  f_user_id :: int
  f_user_feedback :: string
  f_user_rating :: int
  f_created_date :: datetime

text \<open>The three SQL statements of the source, by the table they address.\<close>

datatype statement =
    INSERT_INTELLINOTES_LOG log_binds
  | INSERT_IntelliNotes_Feedback feedback_binds
  | SELECT_INTELLINOTES_PROMPTS_ORDER_BY_NAME

text \<open>A row of \<open>INTELLINOTES_LOG\<close>, as a direct read of the table returns it.\<close>

record log_row =
  LOGID :: nat
  EVENT :: string
  MODEL :: string
  INPUT_MESSAGE :: "string option"
  OUTPUT_MESSAGE :: "string option"
  INPUT_TOKENS :: "int option"
  OUTPUT_TOKENS :: "int option"
  DURATION :: "real option"
  ERRORMESSAGE :: "string option"
  USERID :: "int option"
  USER_RATING :: "int option"
  USER_FEEDBACK :: "string option"
  CREATEDATE :: datetime
  CUSTOM_PROMPT :: "string option"

text \<open>A row of \<open>IntelliNotes_Feedback\<close>.\<close>

record feedback_row =
  fb_LOGID :: int
  fb_USERID :: int
  fb_USER_FEEDBACK :: string
  fb_USER_RATING :: int
  fb_CREATED_DATE :: datetime

text \<open>
  A row of \<open>INTELLINOTES_PROMPTS\<close> in the column order of the query: \<open>NAME\<close>, \<open>ICON\<close>,
  \<open>DESCRIPTION\<close>, \<open>PROMPT\<close>. The last column is a large object or \<open>NULL\<close>; the string is
  what \<open>read()\<close> returns for it.
\<close>

record prompt_row =
  pr_NAME :: string
  pr_ICON :: "string option"
  pr_DESCRIPTION :: "string option"
  pr_PROMPT :: "string option"

text \<open>The dictionary that \<open>fetch_templates\<close> builds for one row.\<close>

record template =
  t_name :: string
  t_icon :: "string option"
  t_description :: "string option"
  t_prompt :: "string option"

section \<open>The driver and the store\<close>

text \<open>
  Each place where the source calls into the driver is a call site. \<open>Read i\<close> is the
  \<open>read()\<close> of the large object in row \<open>i\<close> of the result set.
\<close>

datatype call_site =
    Connect
  | Cursor
  | CreateLob_input
  | Write_input
  | CreateLob_output
  | Write_output
  | CreateLob_custom
  | Write_custom
  | Execute
  | Commit
  | FetchAll
  | Read nat
  | Close

text \<open>
  The behaviour of the driver during one operation: for every call site, the exception the
  call raises there, or \<open>None\<close> when the call returns normally.
\<close>

type_synonym driver = "call_site \<Rightarrow> py_exn option"

text \<open>
  Everything outside the Python process that the operations read or change: the clock, the
  sessions of the database, its temporary large objects, the sequence and the three tables,
  the rows inserted by the current session and not yet committed, the result set of the
  last query, then the calls made into the driver and the log file.
\<close>

record world =
  clock :: datetime
  next_conn :: nat
  open_conns :: "(nat \<times> string \<times> string) list"
  lobs :: "string list"
  SQ_INTELLINOTES_LOG :: nat
  INTELLINOTES_LOG :: "log_row list"
  IntelliNotes_Feedback :: "feedback_row list"
  INTELLINOTES_PROMPTS :: "prompt_row list"
  pending_log :: "log_row list"
  pending_feedback :: "feedback_row list"
  result_set :: "prompt_row list"
  trace :: "call_site list"
  app_log :: "log_record list"

text \<open>A computation that returns a value or raises, and changes the world.\<close>

type_synonym 'a step = "world \<Rightarrow> (py_exn + 'a) \<times> world"

definition returns :: "'a \<Rightarrow> 'a step" where
  "returns x w = (Inr x, w)"

definition bind :: "'a step \<Rightarrow> ('a \<Rightarrow> 'b step) \<Rightarrow> 'b step" where
  "bind m f w = (case m w of (Inl e, w') \<Rightarrow> (Inl e, w') | (Inr x, w') \<Rightarrow> f x w')"

text \<open>
  \<open>try: body except Exception as e: handler\<close>. Every value of \<open>py_exn\<close> is an instance of
  \<open>Exception\<close>, so the handler takes all of them.
\<close>

definition try_except :: "'a step \<Rightarrow> (py_exn \<Rightarrow> 'a step) \<Rightarrow> 'a step" where
  "try_except body handler w =
     (case body w of (Inl e, w') \<Rightarrow> handler e w' | (Inr x, w') \<Rightarrow> (Inr x, w'))"

text \<open>
  \<open>try: body finally: fin\<close>. The final block runs whatever the body did; when it raises,
  its exception replaces the outcome of the body.
\<close>

definition try_finally :: "'a step \<Rightarrow> unit step \<Rightarrow> 'a step" where
  "try_finally body fin w =
     (case body w of
        (r, w') \<Rightarrow> (case fin w' of (Inl e, w'') \<Rightarrow> (Inl e, w'') | (Inr u, w'') \<Rightarrow> (r, w'')))"

text \<open>The \<open>logging\<close> module appends a record and does not raise.\<close>

definition logger :: "level \<Rightarrow> string \<Rightarrow> py_exn option \<Rightarrow> unit step" where
  "logger lvl msg exc w = (Inr (), w\<lparr>app_log := app_log w @ [(lvl, msg, exc)]\<rparr>)"

definition datetime_now :: "datetime step" where
  "datetime_now w = (Inr (clock w), w)"

text \<open>
  A call into the driver at site \<open>s\<close>: the call is recorded, then it raises what the
  driver's behaviour says for this site, or has its effect and returns.
\<close>

definition driver_call :: "driver \<Rightarrow> call_site \<Rightarrow> (world \<Rightarrow> 'a \<times> world) \<Rightarrow> 'a step" where
  "driver_call d s effect w =
     (let w1 = w\<lparr>trace := trace w @ [s]\<rparr>
      in case d s of
           Some e \<Rightarrow> (Inl e, w1)
         | None \<Rightarrow> (case effect w1 of (x, w2) \<Rightarrow> (Inr x, w2)))"

text \<open>
  The \<open>oracledb\<close> driver and the Oracle store behind it are not part of the repository.
  What a call does when it returns is written below from the specification; that a call
  may raise instead is the driver's behaviour \<open>d\<close>.
\<close>

text \<open>
  Modelled from the spec: \<open>oracledb.connect\<close>, which the repository does not contain. It
  opens a session of its own (section 3: no connection is shared across operations); the
  session starts with no uncommitted row.
\<close>

definition oracledb_connect :: "driver \<Rightarrow> string \<Rightarrow> string \<Rightarrow> string \<Rightarrow> connection step" where
  "oracledb_connect d usr pwd addr =
     driver_call d Connect
       (\<lambda>w. (Connection (next_conn w),
              w\<lparr>open_conns := open_conns w @ [(next_conn w, usr, addr)],
                next_conn := Suc (next_conn w),
                pending_log := [], pending_feedback := []\<rparr>))"

text \<open>Creating a cursor changes nothing in the store.\<close>

definition connection_cursor :: "driver \<Rightarrow> connection \<Rightarrow> cursor step" where
  "connection_cursor d c = driver_call d Cursor (\<lambda>w. (Cursor_of c, w))"

text \<open>
  Modelled from the spec: the temporary large objects of the driver, which the repository
  does not contain. Section 4.1 and the glossary have them hold text of any length without
  truncation: \<open>createlob\<close> gives a new empty one, \<open>write\<close> on it stores the text.
\<close>

definition connection_createlob :: "driver \<Rightarrow> call_site \<Rightarrow> connection \<Rightarrow> lob step" where
  "connection_createlob d s c =
     driver_call d s (\<lambda>w. (Lob (length (lobs w)), w\<lparr>lobs := lobs w @ [[]]\<rparr>))"

fun lob_write :: "driver \<Rightarrow> call_site \<Rightarrow> lob \<Rightarrow> string \<Rightarrow> unit step" where
  "lob_write d s (Lob h) txt = driver_call d s (\<lambda>w. ((), w\<lparr>lobs := (lobs w)[h := txt]\<rparr>))"

text \<open>The text a large object holds; a handle that was never created holds nothing.\<close>

fun lob_text :: "world \<Rightarrow> lob \<Rightarrow> string" where
  "lob_text w (Lob h) = (if h < length (lobs w) then lobs w ! h else [])"

text \<open>
  Modelled from the spec: the execution of the three statements by the store, which the
  repository does not contain. The insert into \<open>INTELLINOTES_LOG\<close> takes \<open>LOGID\<close> from the
  sequence (section 3 and glossary: a store-side generator of increasing unique identifiers)
  and every other column from its bind value, a large object by the text it holds; the
  insert into \<open>IntelliNotes_Feedback\<close> takes every column from its bind value, with no
  constraint on \<open>LOGID\<close> or \<open>USER_RATING\<close> (section 3); the query returns all rows of
  \<open>INTELLINOTES_PROMPTS\<close> ordered by \<open>NAME\<close> ascending (section 4.1), compared byte by byte.
  Inserted rows are not durable before the commit (sections 4.1 and 7).
\<close>

definition row_of_binds :: "world \<Rightarrow> log_binds \<Rightarrow> log_row" where
  "row_of_binds w b =
     \<lparr>LOGID = SQ_INTELLINOTES_LOG w,
      EVENT = b_event b,
      MODEL = b_model b,
      INPUT_MESSAGE = map_option (lob_text w) (b_input_message b),
      OUTPUT_MESSAGE = map_option (lob_text w) (b_output_message b),
      INPUT_TOKENS = b_input_tokens b,
      OUTPUT_TOKENS = b_output_tokens b,
      DURATION = b_duration b,
      ERRORMESSAGE = b_error_message b,
      USERID = b_user_id b,
      USER_RATING = b_user_rating b,
      USER_FEEDBACK = b_user_feedback b,
      CREATEDATE = b_created_date b,
      CUSTOM_PROMPT = map_option (lob_text w) (b_custom_prompt b)\<rparr>"

definition row_of_feedback :: "feedback_binds \<Rightarrow> feedback_row" where
  "row_of_feedback b =
     \<lparr>fb_LOGID = f_logid b,
      fb_USERID = f_user_id b,
      fb_USER_FEEDBACK = f_user_feedback b,
      fb_USER_RATING = f_user_rating b,
      fb_CREATED_DATE = f_created_date b\<rparr>"

fun run_statement :: "statement \<Rightarrow> world \<Rightarrow> world" where
  "run_statement (INSERT_INTELLINOTES_LOG b) w =
     w\<lparr>pending_log := pending_log w @ [row_of_binds w b],
       SQ_INTELLINOTES_LOG := Suc (SQ_INTELLINOTES_LOG w)\<rparr>"
| "run_statement (INSERT_IntelliNotes_Feedback b) w =
     w\<lparr>pending_feedback := pending_feedback w @ [row_of_feedback b]\<rparr>"
| "run_statement SELECT_INTELLINOTES_PROMPTS_ORDER_BY_NAME w =
     w\<lparr>result_set := sort_key pr_NAME (INTELLINOTES_PROMPTS w)\<rparr>"

definition cursor_execute :: "driver \<Rightarrow> cursor \<Rightarrow> statement \<Rightarrow> unit step" where
  "cursor_execute d cur stmt = driver_call d Execute (\<lambda>w. ((), run_statement stmt w))"

text \<open>
  Modelled from the spec: \<open>commit\<close> and \<open>close\<close> of a connection, which the repository does
  not contain. The commit makes the rows inserted by the session durable; closing the
  connection ends the session and discards what it did not commit (section 7: no partial
  row persists).
\<close>

definition connection_commit :: "driver \<Rightarrow> connection \<Rightarrow> unit step" where
  "connection_commit d c =
     driver_call d Commit
       (\<lambda>w. ((), w\<lparr>INTELLINOTES_LOG := INTELLINOTES_LOG w @ pending_log w,
                   IntelliNotes_Feedback := IntelliNotes_Feedback w @ pending_feedback w,
                   pending_log := [], pending_feedback := []\<rparr>))"

fun connection_close :: "driver \<Rightarrow> connection \<Rightarrow> unit step" where
  "connection_close d (Connection i) =
     driver_call d Close
       (\<lambda>w. ((), w\<lparr>open_conns := filter (\<lambda>s. fst s \<noteq> i) (open_conns w),
                   pending_log := [], pending_feedback := []\<rparr>))"

text \<open>
  Modelled from the spec: \<open>fetchall\<close> returns the rows of the last query, and \<open>read\<close>
  returns the text of a large object (section 4.1: prompt fields are materialised into
  plain text).
\<close>

definition cursor_fetchall :: "driver \<Rightarrow> cursor \<Rightarrow> prompt_row list step" where
  "cursor_fetchall d cur = driver_call d FetchAll (\<lambda>w. (result_set w, w))"

definition lob_read :: "driver \<Rightarrow> nat \<Rightarrow> string \<Rightarrow> string step" where
  "lob_read d i txt = driver_call d (Read i) (\<lambda>w. (txt, w))"

section \<open>The gateway\<close>

text \<open>
  \<open>get_connection\<close>: the handler is \<open>except oracledb.DatabaseError\<close>, so an exception of
  another class leaves the method.
\<close>

definition get_connection :: "driver \<Rightarrow> DBOracle \<Rightarrow> connection option step" where
  "get_connection d self w =
     (case oracledb_connect d (user self) (password self) (dsn self) w of
        (Inr connection, w1) \<Rightarrow>
          bind (logger INFO ''Successfully connected to the database.'' None)
            (\<lambda>u. returns (Some connection)) w1
      | (Inl (DatabaseError m), w1) \<Rightarrow>
          bind (logger ERROR ''Database connection error'' (Some (DatabaseError m)))
            (\<lambda>u. returns None) w1
      | (Inl (OtherException m), w1) \<Rightarrow> (Inl (OtherException m), w1))"

text \<open>The dictionary literal of \<open>log_entry\<close>, with \<open>created_date or datetime.datetime.now()\<close>
  already evaluated to \<open>cd\<close>.\<close>

definition log_entry_binds :: "entry_args \<Rightarrow> lob \<Rightarrow> lob \<Rightarrow> lob \<Rightarrow> datetime \<Rightarrow> log_binds" where
  "log_entry_binds a input_clob output_clob custom_prompt_clob cd =
     \<lparr>b_event = event a,
      b_model = model a,
      b_input_message = (if py_truthy (input_message a) then Some input_clob else None),
      b_output_message = (if py_truthy (output_message a) then Some output_clob else None),
      b_input_tokens = input_tokens a,
      b_output_tokens = output_tokens a,
      b_duration = duration a,
      b_error_message = error_message a,
      b_user_id = user_id a,
      b_user_rating = user_rating a,
      b_user_feedback = user_feedback a,
      b_created_date = cd,
      b_custom_prompt = (if py_truthy (custom_prompt a) then Some custom_prompt_clob else None)\<rparr>"

text \<open>
  The body of the \<open>try\<close> block of \<open>log_entry\<close>. Leaving the \<open>with\<close> block releases the
  cursor, which changes nothing the model records.
\<close>

definition log_entry_try :: "driver \<Rightarrow> entry_args \<Rightarrow> connection \<Rightarrow> bool step" where
  "log_entry_try d a connection =
     bind (connection_cursor d connection) (\<lambda>cursor.
     bind (connection_createlob d CreateLob_input connection) (\<lambda>input_clob.
     bind (if py_truthy (input_message a)
           then lob_write d Write_input input_clob (py_str (input_message a))
           else returns ()) (\<lambda>u1.
     bind (connection_createlob d CreateLob_output connection) (\<lambda>output_clob.
     bind (if py_truthy (output_message a)
           then lob_write d Write_output output_clob (py_str (output_message a))
           else returns ()) (\<lambda>u2.
     bind (connection_createlob d CreateLob_custom connection) (\<lambda>custom_prompt_clob.
     bind (if py_truthy (custom_prompt a)
           then lob_write d Write_custom custom_prompt_clob (py_str (custom_prompt a))
           else returns ()) (\<lambda>u3.
     bind (case created_date a of Some t \<Rightarrow> returns t | None \<Rightarrow> datetime_now) (\<lambda>cd.
     bind (cursor_execute d cursor
             (INSERT_INTELLINOTES_LOG
                (log_entry_binds a input_clob output_clob custom_prompt_clob cd))) (\<lambda>u4.
     bind (connection_commit d connection) (\<lambda>u5.
     bind (logger INFO (''Logged entry: '' @ event a @ '' with model '' @ model a @ ''.'') None)
       (\<lambda>u6.
     returns True)))))))))))"

definition log_entry :: "driver \<Rightarrow> DBOracle \<Rightarrow> entry_args \<Rightarrow> bool step" where
  "log_entry d self a w =
     (case get_connection d self w of
        (Inl e, w1) \<Rightarrow> (Inl e, w1)
      | (Inr None, w1) \<Rightarrow>
          bind (logger ERROR ''Failed to log event: Database connection error.'' None)
            (\<lambda>u. returns False) w1
      | (Inr (Some connection), w1) \<Rightarrow>
          try_finally
            (try_except (log_entry_try d a connection)
               (\<lambda>e. bind (logger ERROR ''Failed to log entry'' (Some e)) (\<lambda>u. returns False)))
            (connection_close d connection) w1)"

text \<open>
  The body of the \<open>try\<close> block of \<open>log_feedback\<close>. The parameters \<open>user_id\<close>,
  \<open>user_feedback\<close>, \<open>user_rating\<close> and \<open>created_date\<close> of the source are written \<open>uid\<close>,
  \<open>feedback\<close>, \<open>rating\<close> and \<open>cdate\<close>, since the fields of \<open>entry_args\<close> have those names.
\<close>

definition log_feedback_try ::
  "driver \<Rightarrow> int \<Rightarrow> int \<Rightarrow> string \<Rightarrow> int \<Rightarrow> datetime option \<Rightarrow> connection \<Rightarrow> bool step" where
  "log_feedback_try d logid uid feedback rating cdate connection =
     bind (connection_cursor d connection) (\<lambda>cursor.
     bind (case cdate of Some t \<Rightarrow> returns t | None \<Rightarrow> datetime_now) (\<lambda>cd.
     bind (cursor_execute d cursor
             (INSERT_IntelliNotes_Feedback
                \<lparr>f_logid = logid, f_user_id = uid, f_user_feedback = feedback,
                 f_user_rating = rating, f_created_date = cd\<rparr>)) (\<lambda>u1.
     bind (connection_commit d connection) (\<lambda>u2.
     bind (logger INFO
             (''Feedback logged successfully for LogID: '' @ str_int logid @
              '', UserID: '' @ str_int uid @ ''.'') None) (\<lambda>u3.
     returns True)))))"

definition log_feedback ::
  "driver \<Rightarrow> DBOracle \<Rightarrow> int \<Rightarrow> int \<Rightarrow> string \<Rightarrow> int \<Rightarrow> datetime option \<Rightarrow> bool step" where
  "log_feedback d self logid uid feedback rating cdate w =
     (case get_connection d self w of
        (Inl e, w1) \<Rightarrow> (Inl e, w1)
      | (Inr None, w1) \<Rightarrow>
          bind (logger ERROR ''Failed to log feedback: Database connection error.'' None)
            (\<lambda>u. returns False) w1
      | (Inr (Some connection), w1) \<Rightarrow>
          try_finally
            (try_except (log_feedback_try d logid uid feedback rating cdate connection)
               (\<lambda>e. bind (logger ERROR ''Failed to log feedback'' (Some e)) (\<lambda>u. returns False)))
            (connection_close d connection) w1)"

text \<open>
  The list comprehension of \<open>fetch_templates\<close> over the rows that \<open>fetchall()\<close> returned:
  a large object is read, \<open>None\<close> stays \<open>None\<close>.
\<close>

fun materialise :: "driver \<Rightarrow> nat \<Rightarrow> prompt_row list \<Rightarrow> template list step" where
  "materialise d i [] = returns []"
| "materialise d i (row # rows) =
     bind (case pr_PROMPT row of
             None \<Rightarrow> returns None
           | Some txt \<Rightarrow> bind (lob_read d i txt) (\<lambda>s. returns (Some s))) (\<lambda>p.
     bind (materialise d (Suc i) rows) (\<lambda>ts.
     returns (\<lparr>t_name = pr_NAME row, t_icon = pr_ICON row,
               t_description = pr_DESCRIPTION row, t_prompt = p\<rparr> # ts)))"

text \<open>The body of the \<open>try\<close> block of \<open>fetch_templates\<close>.\<close>

definition fetch_templates_try :: "driver \<Rightarrow> connection \<Rightarrow> template list step" where
  "fetch_templates_try d connection =
     bind (connection_cursor d connection) (\<lambda>cursor.
     bind (cursor_execute d cursor SELECT_INTELLINOTES_PROMPTS_ORDER_BY_NAME) (\<lambda>u1.
     bind (cursor_fetchall d cursor) (\<lambda>rows.
     bind (materialise d 0 rows) (\<lambda>templates.
     bind (if templates \<noteq> []
           then logger INFO
                  (''Fetched '' @ str_nat (length templates) @ '' unique templates.'') None
           else logger WARNING ''No unique templates found.'' None) (\<lambda>u2.
     returns templates)))))"

definition fetch_templates :: "driver \<Rightarrow> DBOracle \<Rightarrow> template list step" where
  "fetch_templates d self w =
     (case get_connection d self w of
        (Inl e, w1) \<Rightarrow> (Inl e, w1)
      | (Inr None, w1) \<Rightarrow>
          bind (logger ERROR ''Failed to fetch templates: Database connection error.'' None)
            (\<lambda>u. returns []) w1
      | (Inr (Some connection), w1) \<Rightarrow>
          try_finally
            (try_except (fetch_templates_try d connection)
               (\<lambda>e. bind (logger ERROR ''Failed to fetch unique templates'' (Some e))
                       (\<lambda>u. returns [])))
            (connection_close d connection) w1)"

section \<open>Observations and test values\<close>

text \<open>The calls into the driver made between two states of the world.\<close>

definition calls_made :: "world \<Rightarrow> world \<Rightarrow> call_site list" where
  "calls_made w w' = drop (length (trace w)) (trace w')"

text \<open>The world after \<open>get_connection\<close> obtained a connection.\<close>

definition connected :: "DBOracle \<Rightarrow> world \<Rightarrow> world" where
  "connected self w =
     w\<lparr>open_conns := open_conns w @ [(next_conn w, user self, dsn self)],
       next_conn := Suc (next_conn w),
       pending_log := [], pending_feedback := [],
       trace := trace w @ [Connect],
       app_log := app_log w @ [(INFO, ''Successfully connected to the database.'', None)]\<rparr>"

text \<open>
  A step that runs inside a session: it extends the record of driver calls, and neither
  opens nor closes a connection.
\<close>

definition within_session :: "'a step \<Rightarrow> bool" where
  "within_session m \<longleftrightarrow>
     (\<forall>w. trace (snd (m w)) = trace w @ calls_made w (snd (m w)) \<and>
          Connect \<notin> set (calls_made w (snd (m w))) \<and>
          Close \<notin> set (calls_made w (snd (m w))) \<and>
          open_conns (snd (m w)) = open_conns w)"

text \<open>
  The values of \<open>app/DBOracle_test.py\<close>: the gateway object, the arguments of its
  \<open>log_entry\<close> call, and a store with empty tables. \<open>empty_input_entry\<close> is the same call
  with the empty string for \<open>input_message\<close>, which \<open>app/main.py\<close> passes when the session
  holds no transcript.
\<close>

definition test_self :: DBOracle where
  "test_self =
     \<lparr>user = ''DB_USER'', password = ''DB_PASSWORD'', dsn = ''UATGVPDB.ITRANS.INT/GVPUAT2''\<rparr>"

definition test_world :: world where
  "test_world =
     \<lparr>clock = 1730000000, next_conn = 0, open_conns = [], lobs = [],
      SQ_INTELLINOTES_LOG = 1, INTELLINOTES_LOG = [], IntelliNotes_Feedback = [],
      INTELLINOTES_PROMPTS = [], pending_log = [], pending_feedback = [], result_set = [],
      trace = [], app_log = []\<rparr>"

definition test_entry :: entry_args where
  "test_entry =
     \<lparr>event = ''Test Log'', model = ''Test Model'',
      input_message = Some ''Test input message'',
      output_message = Some ''Test output message'',
      input_tokens = Some 100, output_tokens = Some 50, duration = Some (11 / 5),
      error_message = None, user_id = Some 1, user_rating = None, user_feedback = None,
      created_date = None, custom_prompt = Some ''test prompt''\<rparr>"

definition empty_input_entry :: entry_args where
  "empty_input_entry = test_entry\<lparr>input_message := Some ''''\<rparr>"


text \<open>
  Behaviours of the driver: every call returns; \<open>connect\<close> raises an exception outside the
  \<open>DatabaseError\<close> class, or inside it; \<open>execute\<close>, \<open>commit\<close> or the \<open>read\<close> of the large
  object of row 1 raises; \<open>execute\<close> raises and then \<open>close\<close> raises on the lost connection.
\<close>

definition no_faults :: driver where
  "no_faults = (\<lambda>s. None)"

definition interface_error_on_connect :: driver where
  "interface_error_on_connect = no_faults(Connect := Some (OtherException ''InterfaceError''))"

definition database_error_on_connect :: driver where
  "database_error_on_connect = no_faults(Connect := Some (DatabaseError ''ORA-12541''))"

definition execute_raises :: driver where
  "execute_raises = no_faults(Execute := Some (DatabaseError ''ORA-03113''))"

definition commit_raises :: driver where
  "commit_raises = no_faults(Commit := Some (DatabaseError ''ORA-03114''))"


definition execute_and_close_raise :: driver where
  "execute_and_close_raise =
     no_faults(Execute := Some (DatabaseError ''ORA-03113''),
               Close := Some (DatabaseError ''DPI-1010''))"

section \<open>Auxiliary lemmas\<close>

lemmas fixture_defs = no_faults_def test_self_def test_world_def test_entry_def
  interface_error_on_connect_def database_error_on_connect_def execute_raises_def
  execute_and_close_raise_def

lemmas driver_defs = connection_cursor_def connection_createlob_def cursor_execute_def
  connection_commit_def cursor_fetchall_def lob_read_def oracledb_connect_def

lemmas run_defs = log_entry_def log_feedback_def fetch_templates_def get_connection_def
  log_entry_try_def log_feedback_try_def fetch_templates_try_def log_entry_binds_def
  row_of_binds_def row_of_feedback_def driver_defs driver_call_def bind_def returns_def
  logger_def datetime_now_def try_except_def try_finally_def calls_made_def
  connection_close.simps lob_write.simps

declare connection_close.simps [simp del] lob_write.simps [simp del]

subsection \<open>Steps\<close>

lemma returns_apply [simp]: "returns x w = (Inr x, w)"
  by (simp add: returns_def)

lemma bind_returns [simp]: "bind (returns x) f w = f x w"
  by (simp add: bind_def)

lemma bind_logger [simp]:
  "bind (logger lvl msg exc) f w = f () (w\<lparr>app_log := app_log w @ [(lvl, msg, exc)]\<rparr>)"
  by (simp add: bind_def logger_def)

lemma bind_datetime_now [simp]: "bind datetime_now f w = f (clock w) w"
  by (simp add: bind_def datetime_now_def)

lemma bind_driver_call:
  "bind (driver_call d s effect) f w =
     (case d s of
        Some e \<Rightarrow> (Inl e, w\<lparr>trace := trace w @ [s]\<rparr>)
      | None \<Rightarrow> (case effect (w\<lparr>trace := trace w @ [s]\<rparr>) of (x, w2) \<Rightarrow> f x w2))"
  by (simp add: bind_def driver_call_def Let_def split: option.splits prod.splits)

lemma bind_if: "bind (if b then m else n) f w = (if b then bind m f w else bind n f w)"
  by simp

lemma bind_case_option:
  "bind (case x of None \<Rightarrow> m | Some t \<Rightarrow> n t) f w =
     (case x of None \<Rightarrow> bind m f w | Some t \<Rightarrow> bind (n t) f w)"
  by (simp split: option.splits)

lemma bind_lob_write:
  "bind (lob_write d s l txt) f w =
     (case d s of
        Some e \<Rightarrow> (Inl e, w\<lparr>trace := trace w @ [s]\<rparr>)
      | None \<Rightarrow> f () (w\<lparr>trace := trace w @ [s],
                         lobs := (lobs w)[(case l of Lob h \<Rightarrow> h) := txt]\<rparr>))"
  by (cases l) (simp add: lob_write.simps bind_driver_call split: option.splits)

lemmas bind_simps = bind_driver_call bind_if bind_case_option bind_lob_write

lemma py_truthy_str: "py_truthy s \<Longrightarrow> Some (py_str s) = s"
  by (cases s) simp_all

subsection \<open>Acquiring and closing\<close>

lemma get_connection_ok:
  "d Connect = None \<Longrightarrow>
     get_connection d self w = (Inr (Some (Connection (next_conn w))), connected self w)"
  by (simp add: get_connection_def oracledb_connect_def driver_call_def connected_def
      bind_def logger_def returns_def)

lemma get_connection_database_error:
  "d Connect = Some (DatabaseError m) \<Longrightarrow>
     get_connection d self w =
       (Inr None, w\<lparr>trace := trace w @ [Connect],
                    app_log := app_log w @
                      [(ERROR, ''Database connection error'', Some (DatabaseError m))]\<rparr>)"
  by (simp add: get_connection_def oracledb_connect_def driver_call_def
      bind_def logger_def returns_def)

lemma get_connection_other:
  "d Connect = Some (OtherException m) \<Longrightarrow>
     get_connection d self w = (Inl (OtherException m), w\<lparr>trace := trace w @ [Connect]\<rparr>)"
  by (simp add: get_connection_def oracledb_connect_def driver_call_def)

lemma get_connection_cases:
  obtains (ok) "d Connect = None"
    | (db) m where "d Connect = Some (DatabaseError m)"
    | (other) m where "d Connect = Some (OtherException m)"
proof (cases "d Connect")
  case None
  then show ?thesis by (rule ok)
next
  case (Some e)
  then show ?thesis by (cases e) (auto intro: db other)
qed


lemma get_connection_None:
  "fst (get_connection d self w) = Inr None \<Longrightarrow> \<exists>m. d Connect = Some (DatabaseError m)"
  by (cases d rule: get_connection_cases)
    (simp_all add: get_connection_ok get_connection_database_error get_connection_other)

lemma finally_close_ok:
  "d Close = None \<Longrightarrow>
     try_finally body (connection_close d (Connection i)) w =
       (fst (body w),
        (snd (body w))\<lparr>trace := trace (snd (body w)) @ [Close],
                       open_conns := filter (\<lambda>s. fst s \<noteq> i) (open_conns (snd (body w))),
                       pending_log := [], pending_feedback := []\<rparr>)"
  by (simp add: try_finally_def connection_close.simps driver_call_def split: prod.splits)

lemma finally_close_raises:
  "d Close = Some e \<Longrightarrow>
     try_finally body (connection_close d (Connection i)) w =
       (Inl e, (snd (body w))\<lparr>trace := trace (snd (body w)) @ [Close]\<rparr>)"
  by (simp add: try_finally_def connection_close.simps driver_call_def split: prod.splits)



subsection \<open>The three operations after the connection attempt\<close>

lemma log_entry_acquired:
  "d Connect = None \<Longrightarrow>
     log_entry d self a w =
       try_finally
         (try_except (log_entry_try d a (Connection (next_conn w)))
            (\<lambda>e. bind (logger ERROR ''Failed to log entry'' (Some e)) (\<lambda>u. returns False)))
         (connection_close d (Connection (next_conn w))) (connected self w)"
  by (simp add: log_entry_def get_connection_ok)

lemma log_feedback_acquired:
  "d Connect = None \<Longrightarrow>
     log_feedback d self logid uid feedback rating cdate w =
       try_finally
         (try_except
            (log_feedback_try d logid uid feedback rating cdate (Connection (next_conn w)))
            (\<lambda>e. bind (logger ERROR ''Failed to log feedback'' (Some e)) (\<lambda>u. returns False)))
         (connection_close d (Connection (next_conn w))) (connected self w)"
  by (simp add: log_feedback_def get_connection_ok)

lemma fetch_templates_acquired:
  "d Connect = None \<Longrightarrow>
     fetch_templates d self w =
       try_finally
         (try_except (fetch_templates_try d (Connection (next_conn w)))
            (\<lambda>e. bind (logger ERROR ''Failed to fetch unique templates'' (Some e))
                    (\<lambda>u. returns [])))
         (connection_close d (Connection (next_conn w))) (connected self w)"
  by (simp add: fetch_templates_def get_connection_ok)

lemma log_entry_unavailable:
  "d Connect = Some (DatabaseError m) \<Longrightarrow>
     log_entry d self a w =
       (Inr False,
        w\<lparr>trace := trace w @ [Connect],
          app_log := app_log w @
            [(ERROR, ''Database connection error'', Some (DatabaseError m)),
             (ERROR, ''Failed to log event: Database connection error.'', None)]\<rparr>)"
  by (simp add: log_entry_def get_connection_database_error)

lemma log_feedback_unavailable:
  "d Connect = Some (DatabaseError m) \<Longrightarrow>
     log_feedback d self logid uid feedback rating cdate w =
       (Inr False,
        w\<lparr>trace := trace w @ [Connect],
          app_log := app_log w @
            [(ERROR, ''Database connection error'', Some (DatabaseError m)),
             (ERROR, ''Failed to log feedback: Database connection error.'', None)]\<rparr>)"
  by (simp add: log_feedback_def get_connection_database_error)

lemma fetch_templates_unavailable:
  "d Connect = Some (DatabaseError m) \<Longrightarrow>
     fetch_templates d self w =
       (Inr [],
        w\<lparr>trace := trace w @ [Connect],
          app_log := app_log w @
            [(ERROR, ''Database connection error'', Some (DatabaseError m)),
             (ERROR, ''Failed to fetch templates: Database connection error.'', None)]\<rparr>)"
  by (simp add: fetch_templates_def get_connection_database_error)

lemma log_entry_connect_raises:
  "d Connect = Some (OtherException m) \<Longrightarrow>
     log_entry d self a w = (Inl (OtherException m), w\<lparr>trace := trace w @ [Connect]\<rparr>)"
  by (simp add: log_entry_def get_connection_other)

lemma log_feedback_connect_raises:
  "d Connect = Some (OtherException m) \<Longrightarrow>
     log_feedback d self logid uid feedback rating cdate w =
       (Inl (OtherException m), w\<lparr>trace := trace w @ [Connect]\<rparr>)"
  by (simp add: log_feedback_def get_connection_other)

lemma fetch_templates_connect_raises:
  "d Connect = Some (OtherException m) \<Longrightarrow>
     fetch_templates d self w = (Inl (OtherException m), w\<lparr>trace := trace w @ [Connect]\<rparr>)"
  by (simp add: fetch_templates_def get_connection_other)



subsection \<open>Steps inside a session\<close>

lemma calls_made_eq: "trace w' = trace w @ xs \<Longrightarrow> calls_made w w' = xs"
  by (simp add: calls_made_def)

lemma calls_made_same [simp]: "calls_made w w = []"
  by (simp add: calls_made_def)

lemma within_sessionI:
  assumes "\<And>w. \<exists>xs. trace (snd (m w)) = trace w @ xs \<and> Connect \<notin> set xs \<and> Close \<notin> set xs"
    and "\<And>w. open_conns (snd (m w)) = open_conns w"
  shows "within_session m"
  unfolding within_session_def
proof (intro allI)
  fix w
  from assms(1) [of w] obtain xs where
    xs: "trace (snd (m w)) = trace w @ xs" "Connect \<notin> set xs" "Close \<notin> set xs"
    by blast
  from xs(1) have "calls_made w (snd (m w)) = xs" by (rule calls_made_eq)
  with xs assms(2) [of w]
  show "trace (snd (m w)) = trace w @ calls_made w (snd (m w)) \<and>
        Connect \<notin> set (calls_made w (snd (m w))) \<and>
        Close \<notin> set (calls_made w (snd (m w))) \<and>
        open_conns (snd (m w)) = open_conns w"
    by simp
qed

lemma within_sessionD:
  assumes "within_session m" and "m w = (r, w')"
  shows "trace w' = trace w @ calls_made w w'"
    and "Connect \<notin> set (calls_made w w')"
    and "Close \<notin> set (calls_made w w')"
    and "open_conns w' = open_conns w"
  using assms unfolding within_session_def by (metis snd_conv)+

lemma within_returns: "within_session (returns x)"
  by (rule within_sessionI) simp_all

lemma within_logger: "within_session (logger lvl msg exc)"
  by (rule within_sessionI) (simp_all add: logger_def)

lemma within_datetime_now: "within_session datetime_now"
  by (rule within_sessionI) (simp_all add: datetime_now_def)

lemma within_driver_call:
  assumes "s \<noteq> Connect" and "s \<noteq> Close"
    and "\<And>w. trace (snd (effect w)) = trace w \<and> open_conns (snd (effect w)) = open_conns w"
  shows "within_session (driver_call d s effect)"
proof (rule within_sessionI)
  fix w
  show "\<exists>xs. trace (snd (driver_call d s effect w)) = trace w @ xs \<and>
          Connect \<notin> set xs \<and> Close \<notin> set xs"
    using assms(1,2) assms(3) [of "w\<lparr>trace := trace w @ [s]\<rparr>"]
    by (intro exI [of _ "[s]"])
      (auto simp add: driver_call_def Let_def split: option.splits prod.splits)
  show "open_conns (snd (driver_call d s effect w)) = open_conns w"
    using assms(3) [of "w\<lparr>trace := trace w @ [s]\<rparr>"]
    by (auto simp add: driver_call_def Let_def split: option.splits prod.splits)
qed

lemma within_bind:
  assumes m: "within_session m" and f: "\<And>x. within_session (f x)"
  shows "within_session (bind m f)"
proof (rule within_sessionI)
  fix w
  obtain r w1 where mw: "m w = (r, w1)" by (cases "m w")
  note m1 = within_sessionD [OF m mw]
  show "\<exists>xs. trace (snd (bind m f w)) = trace w @ xs \<and> Connect \<notin> set xs \<and> Close \<notin> set xs"
  proof (cases r)
    case (Inl e)
    with mw m1 show ?thesis
      by (intro exI [of _ "calls_made w w1"]) (simp add: bind_def)
  next
    case (Inr x)
    obtain r2 w2 where fw: "f x w1 = (r2, w2)" by (cases "f x w1")
    note f1 = within_sessionD [OF f fw]
    from Inr mw fw m1 f1 show ?thesis
      by (intro exI [of _ "calls_made w w1 @ calls_made w1 w2"]) (simp add: bind_def)
  qed
  show "open_conns (snd (bind m f w)) = open_conns w"
  proof (cases r)
    case (Inl e)
    with mw m1 show ?thesis by (simp add: bind_def)
  next
    case (Inr x)
    obtain r2 w2 where fw: "f x w1 = (r2, w2)" by (cases "f x w1")
    note f1 = within_sessionD [OF f fw]
    from Inr mw fw m1 f1 show ?thesis by (simp add: bind_def)
  qed
qed

lemma within_if:
  "within_session m \<Longrightarrow> within_session n \<Longrightarrow> within_session (if b then m else n)"
  by simp

lemma within_case_option:
  "within_session m \<Longrightarrow> (\<And>t. within_session (n t)) \<Longrightarrow>
     within_session (case x of None \<Rightarrow> m | Some t \<Rightarrow> n t)"
  by (cases x) simp_all

lemmas within_intros = within_bind within_if within_case_option within_returns within_logger
  within_datetime_now

lemma within_lob_write:
  "s \<noteq> Connect \<Longrightarrow> s \<noteq> Close \<Longrightarrow> within_session (lob_write d s l txt)"
  by (cases l) (simp only: lob_write.simps, rule within_driver_call, simp_all)

lemma run_statement_session [simp]:
  "trace (run_statement stmt w) = trace w" "open_conns (run_statement stmt w) = open_conns w"
  by (cases stmt; simp)+

lemma within_log_entry_try: "within_session (log_entry_try d a c)"
  unfolding log_entry_try_def driver_defs
  by (intro within_intros within_lob_write within_driver_call) simp_all

lemma within_log_feedback_try:
  "within_session (log_feedback_try d logid uid feedback rating cdate c)"
  unfolding log_feedback_try_def driver_defs
  by (intro within_intros within_driver_call) simp_all

lemma within_materialise: "within_session (materialise d i rows)"
proof (induction rows arbitrary: i)
  case Nil
  show ?case by (simp only: materialise.simps within_returns)
next
  case (Cons row rows)
  show ?case
    unfolding materialise.simps lob_read_def
    by (intro within_intros Cons.IH within_driver_call) simp_all
qed

lemma within_fetch_templates_try: "within_session (fetch_templates_try d c)"
  unfolding fetch_templates_try_def driver_defs
  by (intro within_intros within_driver_call within_materialise) simp_all

subsection \<open>An operation that holds a connection\<close>

text \<open>
  The outcome of \<open>try: body except Exception: log, return y finally: connection.close()\<close>
  in terms of the outcome of the body.
\<close>

lemma guarded_world:
  assumes "body w1 = (rb, wb)"
  shows "snd (try_finally
                     (try_except body (\<lambda>e. bind (logger ERROR msg (Some e)) (\<lambda>u. returns y)))
                     (connection_close d (Connection i)) w1) =
                 (if d Close = None
                  then wb\<lparr>trace := trace wb @ [Close],
                          open_conns := filter (\<lambda>s. fst s \<noteq> i) (open_conns wb),
                          pending_log := [], pending_feedback := [],
                          app_log := app_log wb @
                            (case rb of Inl e \<Rightarrow> [(ERROR, msg, Some e)] | Inr x \<Rightarrow> [])\<rparr>
                  else wb\<lparr>trace := trace wb @ [Close],
                          app_log := app_log wb @
                            (case rb of Inl e \<Rightarrow> [(ERROR, msg, Some e)] | Inr x \<Rightarrow> [])\<rparr>)"
  using assms
  by (cases "d Close"; cases rb)
    (simp_all add: finally_close_ok finally_close_raises try_except_def)

lemma guarded_result:
  assumes "body w1 = (rb, wb)"
  shows "fst (try_finally
                (try_except body (\<lambda>e. bind (logger ERROR msg (Some e)) (\<lambda>u. returns y)))
                (connection_close d (Connection i)) w1) =
           (case d Close of
              Some e \<Rightarrow> Inl e
            | None \<Rightarrow> (case rb of Inl e \<Rightarrow> Inr y | Inr x \<Rightarrow> Inr x))"
  using assms
  by (cases "d Close"; cases rb)
    (simp_all add: finally_close_ok finally_close_raises try_except_def)

lemma connected_simps [simp]:
  "trace (connected self w) = trace w @ [Connect]"
  "open_conns (connected self w) = open_conns w @ [(next_conn w, user self, dsn self)]"
  "INTELLINOTES_LOG (connected self w) = INTELLINOTES_LOG w"
  "IntelliNotes_Feedback (connected self w) = IntelliNotes_Feedback w"
  "INTELLINOTES_PROMPTS (connected self w) = INTELLINOTES_PROMPTS w"
  "SQ_INTELLINOTES_LOG (connected self w) = SQ_INTELLINOTES_LOG w"
  "pending_log (connected self w) = []"
  "pending_feedback (connected self w) = []"
  "clock (connected self w) = clock w"
  "app_log (connected self w) =
     app_log w @ [(INFO, ''Successfully connected to the database.'', None)]"
  by (simp_all add: connected_def)

lemma guarded_calls_connected:
  assumes "body (connected self w) = (rb, wb)" and "within_session body"
  shows "calls_made w (snd (try_finally
                (try_except body (\<lambda>e. bind (logger ERROR msg (Some e)) (\<lambda>u. returns y)))
                (connection_close d (Connection i)) (connected self w))) =
           Connect # calls_made (connected self w) wb @ [Close]"
proof -
  have "trace (snd (try_finally
                (try_except body (\<lambda>e. bind (logger ERROR msg (Some e)) (\<lambda>u. returns y)))
                (connection_close d (Connection i)) (connected self w))) = trace wb @ [Close]"
    by (simp add: guarded_world [of body "connected self w" rb wb, OF assms(1)])
  with within_sessionD(1) [OF assms(2,1)] show ?thesis
    by (intro calls_made_eq) simp
qed

text \<open>
  The calls of an operation: one \<open>connect\<close>; when it returned, the calls of the \<open>try\<close> block
  and one \<open>close\<close> at the end.
\<close>

lemma once_closed:
  assumes "calls = Connect # tr @ [Close]" and "Connect \<notin> set tr" and "Close \<notin> set tr"
  shows "count_list calls Connect = 1" and "count_list calls Close = 1" and "last calls = Close"
  using assms by simp_all

lemma guarded_closes:
  assumes conn: "d Connect = None" and within: "within_session body"
    and run: "run = try_finally
                (try_except body (\<lambda>e. bind (logger ERROR msg (Some e)) (\<lambda>u. returns y)))
                (connection_close d (Connection (next_conn w))) (connected self w)"
  shows "count_list (calls_made w (snd run)) Connect = 1"
    and "count_list (calls_made w (snd run)) Close = 1"
    and "last (calls_made w (snd run)) = Close"
    and "d Close = None \<Longrightarrow> set (open_conns (snd run)) \<subseteq> set (open_conns w)"
    and "d Close = None \<Longrightarrow> next_conn w \<notin> fst ` set (open_conns (snd run))"
proof -
  obtain rb wb where body: "body (connected self w) = (rb, wb)"
    by (cases "body (connected self w)")
  note inner = within_sessionD [OF within body]
  have calls: "calls_made w (snd run) = Connect # calls_made (connected self w) wb @ [Close]"
    unfolding run by (rule guarded_calls_connected [OF body within])
  show "count_list (calls_made w (snd run)) Connect = 1"
    and "count_list (calls_made w (snd run)) Close = 1"
    and "last (calls_made w (snd run)) = Close"
    using once_closed [OF calls inner(2,3)] by simp_all
  assume close: "d Close = None"
  have "open_conns (snd run) = filter (\<lambda>s. fst s \<noteq> next_conn w) (open_conns w)"
    unfolding run
    by (simp add: guarded_world [of body "connected self w" rb wb, OF body] close inner(4))
  then show "set (open_conns (snd run)) \<subseteq> set (open_conns w)"
    and "next_conn w \<notin> fst ` set (open_conns (snd run))"
    by auto
qed

lemma unguarded_closes:
  assumes "d Connect \<noteq> None" and "w' = w\<lparr>trace := trace w @ [Connect], app_log := l\<rparr>"
  shows "count_list (calls_made w w') Connect = 1"
    and "count_list (calls_made w w') Close = 0"
    and "open_conns w' = open_conns w"
  using assms by (simp_all add: calls_made_def)

lemma closes_acquired:
  assumes conn: "d Connect = None" and within: "within_session body"
    and run: "run = try_finally
                (try_except body (\<lambda>e. bind (logger ERROR msg (Some e)) (\<lambda>u. returns y)))
                (connection_close d (Connection (next_conn w))) (connected self w)"
    and w': "run = (r, w')"
  shows "count_list (calls_made w w') Connect = 1 \<and>
     count_list (calls_made w w') Close = (if d Connect = None then 1 else 0) \<and>
     (d Connect = None \<longrightarrow> last (calls_made w w') = Close) \<and>
     (d Close = None \<longrightarrow> set (open_conns w') \<subseteq> set (open_conns w)) \<and>
     (d Connect = None \<longrightarrow> d Close = None \<longrightarrow> next_conn w \<notin> fst ` set (open_conns w'))"
  using guarded_closes [of d, OF conn within run] conn w' by simp

lemma closes_not_acquired:
  assumes "d Connect \<noteq> None" and "w' = w\<lparr>trace := trace w @ [Connect], app_log := l\<rparr>"
  shows "count_list (calls_made w w') Connect = 1 \<and>
     count_list (calls_made w w') Close = (if d Connect = None then 1 else 0) \<and>
     (d Connect = None \<longrightarrow> last (calls_made w w') = Close) \<and>
     (d Close = None \<longrightarrow> set (open_conns w') \<subseteq> set (open_conns w)) \<and>
     (d Connect = None \<longrightarrow> d Close = None \<longrightarrow> next_conn w \<notin> fst ` set (open_conns w'))"
  using unguarded_closes [where d = d, OF assms] assms(1) by auto

subsection \<open>The \<open>try\<close> block of \<open>log_entry\<close>\<close>

lemmas log_entry_try_unfold = log_entry_try_def driver_defs

lemma log_entry_try_commit:
  assumes "log_entry_try d a c w = (r, w')"
  shows "count_list (calls_made w w') Execute \<le> 1"
    and "Commit \<in> set (calls_made w w') \<Longrightarrow> Execute \<in> set (calls_made w w') \<and> d Execute = None"
    and "SQ_INTELLINOTES_LOG w \<le> SQ_INTELLINOTES_LOG w'"
  using assms [symmetric] unfolding log_entry_try_unfold
  by (simp_all add: bind_simps calls_made_def split: option.splits if_splits)

lemma log_entry_try_no_write:
  assumes "log_entry_try d a c w = (r, w')"
  shows "\<not> py_truthy (input_message a) \<Longrightarrow> Write_input \<notin> set (calls_made w w')"
    and "\<not> py_truthy (output_message a) \<Longrightarrow> Write_output \<notin> set (calls_made w w')"
    and "\<not> py_truthy (custom_prompt a) \<Longrightarrow> Write_custom \<notin> set (calls_made w w')"
  using assms [symmetric] unfolding log_entry_try_unfold
  by (simp_all add: bind_simps calls_made_def split: option.splits if_splits)

lemma log_entry_try_raised:
  assumes "log_entry_try d a c w = (Inl e, w')"
  shows "INTELLINOTES_LOG w' = INTELLINOTES_LOG w"
  using assms [symmetric] unfolding log_entry_try_unfold
  by (simp_all add: bind_simps split: option.splits if_splits)

lemma log_entry_try_returned:
  assumes "log_entry_try d a c w = (Inr b, w')"
  shows "b" and "d Commit = None"
    and "Commit \<in> set (calls_made w w')"
    and "CreateLob_input \<in> set (calls_made w w')"
    and "CreateLob_output \<in> set (calls_made w w')"
    and "CreateLob_custom \<in> set (calls_made w w')"
    and "SQ_INTELLINOTES_LOG w' = Suc (SQ_INTELLINOTES_LOG w)"
  using assms [symmetric] unfolding log_entry_try_unfold
  by (simp_all add: bind_simps calls_made_def split: option.splits if_splits)

lemma log_entry_try_row:
  assumes "log_entry_try d a c w = (Inr b, w')"
  shows "INTELLINOTES_LOG w' = INTELLINOTES_LOG w @ pending_log w @
      [\<lparr>LOGID = SQ_INTELLINOTES_LOG w,
        EVENT = event a,
        MODEL = model a,
        INPUT_MESSAGE = (if py_truthy (input_message a) then input_message a else None),
        OUTPUT_MESSAGE = (if py_truthy (output_message a) then output_message a else None),
        INPUT_TOKENS = input_tokens a,
        OUTPUT_TOKENS = output_tokens a,
        DURATION = duration a,
        ERRORMESSAGE = error_message a,
        USERID = user_id a,
        USER_RATING = user_rating a,
        USER_FEEDBACK = user_feedback a,
        CREATEDATE = (case created_date a of Some t \<Rightarrow> t | None \<Rightarrow> clock w),
        CUSTOM_PROMPT = (if py_truthy (custom_prompt a) then custom_prompt a else None)\<rparr>]"
  using assms [symmetric] unfolding log_entry_try_unfold
  by (simp add: bind_simps row_of_binds_def log_entry_binds_def nth_append py_truthy_str
      split: option.splits if_splits)

subsection \<open>\<open>log_entry\<close> as a whole\<close>

lemma guarded_store:
  assumes "body w1 = (rb, wb)"
  shows "INTELLINOTES_LOG (snd (try_finally
                (try_except body (\<lambda>e. bind (logger ERROR msg (Some e)) (\<lambda>u. returns y)))
                (connection_close d (Connection i)) w1)) = INTELLINOTES_LOG wb"
    and "IntelliNotes_Feedback (snd (try_finally
                (try_except body (\<lambda>e. bind (logger ERROR msg (Some e)) (\<lambda>u. returns y)))
                (connection_close d (Connection i)) w1)) = IntelliNotes_Feedback wb"
    and "SQ_INTELLINOTES_LOG (snd (try_finally
                (try_except body (\<lambda>e. bind (logger ERROR msg (Some e)) (\<lambda>u. returns y)))
                (connection_close d (Connection i)) w1)) = SQ_INTELLINOTES_LOG wb"
  by (simp_all add: guarded_world [of body w1 rb wb, OF assms])

lemma log_entry_outcome:
  assumes conn: "d Connect = None"
    and body: "log_entry_try d a (Connection (next_conn w)) (connected self w) = (rb, wb)"
    and run: "log_entry d self a w = (r, w')"
  shows "r = (case d Close of
                Some e \<Rightarrow> Inl e
              | None \<Rightarrow> (case rb of Inl e \<Rightarrow> Inr False | Inr x \<Rightarrow> Inr x))"
    and "INTELLINOTES_LOG w' = INTELLINOTES_LOG wb"
    and "SQ_INTELLINOTES_LOG w' = SQ_INTELLINOTES_LOG wb"
    and "calls_made w w' = Connect # calls_made (connected self w) wb @ [Close]"
proof -
  let ?body = "log_entry_try d a (Connection (next_conn w))"
  note acq = log_entry_acquired [of d self a w, OF conn]
  have r: "r = fst (log_entry d self a w)" and w': "w' = snd (log_entry d self a w)"
    using run by simp_all
  show "r = (case d Close of
                Some e \<Rightarrow> Inl e
              | None \<Rightarrow> (case rb of Inl e \<Rightarrow> Inr False | Inr x \<Rightarrow> Inr x))"
    unfolding r acq by (rule guarded_result [of ?body "connected self w", OF body])
  show "INTELLINOTES_LOG w' = INTELLINOTES_LOG wb"
    unfolding w' acq by (rule guarded_store [of ?body "connected self w", OF body])
  show "SQ_INTELLINOTES_LOG w' = SQ_INTELLINOTES_LOG wb"
    unfolding w' acq by (rule guarded_store [of ?body "connected self w", OF body])
  show "calls_made w w' = Connect # calls_made (connected self w) wb @ [Close]"
    unfolding w' acq
    by (rule guarded_calls_connected [of ?body self w, OF body within_log_entry_try])
qed

lemma log_entry_success:
  assumes "log_entry d self a w = (Inr True, w')"
  obtains wb where "d Connect = None"
    and "log_entry_try d a (Connection (next_conn w)) (connected self w) = (Inr True, wb)"
    and "INTELLINOTES_LOG w' = INTELLINOTES_LOG wb"
    and "SQ_INTELLINOTES_LOG w' = SQ_INTELLINOTES_LOG wb"
    and "calls_made w w' = Connect # calls_made (connected self w) wb @ [Close]"
proof (cases d rule: get_connection_cases)
  case ok
  obtain rb wb where
    body: "log_entry_try d a (Connection (next_conn w)) (connected self w) = (rb, wb)"
    by (cases "log_entry_try d a (Connection (next_conn w)) (connected self w)")
  note out = log_entry_outcome [OF ok body assms]
  from out(1) have "rb = Inr True"
    by (cases "d Close"; cases rb) simp_all
  with ok body out that show ?thesis by simp
next
  case (db m)
  with assms show ?thesis by (simp add: log_entry_unavailable)
next
  case (other m)
  with assms show ?thesis by (simp add: log_entry_connect_raises)
qed

lemma log_entry_not_acquired:
  assumes "d Connect \<noteq> None" and "log_entry d self a w = (r, w')"
  shows "calls_made w w' = [Connect]"
    and "INTELLINOTES_LOG w' = INTELLINOTES_LOG w"
    and "SQ_INTELLINOTES_LOG w' = SQ_INTELLINOTES_LOG w"
    and "r \<noteq> Inr True"
    and "(\<exists>m. d Connect = Some (DatabaseError m)) \<longrightarrow> r = Inr False"
proof -
  consider (db) m where "d Connect = Some (DatabaseError m)"
    | (other) m where "d Connect = Some (OtherException m)"
    using assms(1) by (cases d rule: get_connection_cases) auto
  then have "calls_made w w' = [Connect] \<and> INTELLINOTES_LOG w' = INTELLINOTES_LOG w \<and>
      SQ_INTELLINOTES_LOG w' = SQ_INTELLINOTES_LOG w \<and> r \<noteq> Inr True \<and>
      ((\<exists>m. d Connect = Some (DatabaseError m)) \<longrightarrow> r = Inr False)"
  proof cases
    case db
    with assms(2) show ?thesis
      by (auto simp add: log_entry_unavailable calls_made_def)
  next
    case other
    with assms(2) show ?thesis
      by (auto simp add: log_entry_connect_raises calls_made_def)
  qed
  then show "calls_made w w' = [Connect]"
    and "INTELLINOTES_LOG w' = INTELLINOTES_LOG w"
    and "SQ_INTELLINOTES_LOG w' = SQ_INTELLINOTES_LOG w"
    and "r \<noteq> Inr True"
    and "(\<exists>m. d Connect = Some (DatabaseError m)) \<longrightarrow> r = Inr False"
    by simp_all
qed

lemma log_entry_table_shape:
  assumes "log_entry d self a w = (r, w')"
  shows "SQ_INTELLINOTES_LOG w \<le> SQ_INTELLINOTES_LOG w' \<and>
     (INTELLINOTES_LOG w' = INTELLINOTES_LOG w \<or>
      (\<exists>row. INTELLINOTES_LOG w' = INTELLINOTES_LOG w @ [row] \<and>
         LOGID row = SQ_INTELLINOTES_LOG w \<and>
         SQ_INTELLINOTES_LOG w' = Suc (SQ_INTELLINOTES_LOG w)))"
proof (cases "d Connect = None")
  case True
  obtain rb wb where
    body: "log_entry_try d a (Connection (next_conn w)) (connected self w) = (rb, wb)"
    by (cases "log_entry_try d a (Connection (next_conn w)) (connected self w)")
  note out = log_entry_outcome [OF True body assms]
  show ?thesis
  proof (cases rb)
    case (Inl e)
    with body log_entry_try_raised [of d a _ _ e wb] log_entry_try_commit(3) [OF body]
    show ?thesis by (simp add: out)
  next
    case (Inr b)
    with body log_entry_try_row [of d a _ _ b wb] log_entry_try_returned(7) [of d a _ _ b wb]
    show ?thesis by (simp add: out)
  qed
next
  case False
  from log_entry_not_acquired(2,3) [OF False assms] show ?thesis by simp
qed

lemma log_entry_inserted_row:
  assumes "log_entry d self a w = (Inr True, w')"
  shows "INTELLINOTES_LOG w' = INTELLINOTES_LOG w @
      [\<lparr>LOGID = SQ_INTELLINOTES_LOG w,
        EVENT = event a,
        MODEL = model a,
        INPUT_MESSAGE = (if py_truthy (input_message a) then input_message a else None),
        OUTPUT_MESSAGE = (if py_truthy (output_message a) then output_message a else None),
        INPUT_TOKENS = input_tokens a,
        OUTPUT_TOKENS = output_tokens a,
        DURATION = duration a,
        ERRORMESSAGE = error_message a,
        USERID = user_id a,
        USER_RATING = user_rating a,
        USER_FEEDBACK = user_feedback a,
        CREATEDATE = (case created_date a of Some t \<Rightarrow> t | None \<Rightarrow> clock w),
        CUSTOM_PROMPT = (if py_truthy (custom_prompt a) then custom_prompt a else None)\<rparr>]"
proof -
  from assms obtain wb where
    body: "log_entry_try d a (Connection (next_conn w)) (connected self w) = (Inr True, wb)"
    and table: "INTELLINOTES_LOG w' = INTELLINOTES_LOG wb"
    by (rule log_entry_success)
  from log_entry_try_row [OF body] table show ?thesis
    by (simp cong: option.case_cong)
qed

lemma log_entry_no_write:
  assumes "log_entry d self a w = (r, w')"
  shows "\<not> py_truthy (input_message a) \<Longrightarrow> Write_input \<notin> set (calls_made w w')"
    and "\<not> py_truthy (output_message a) \<Longrightarrow> Write_output \<notin> set (calls_made w w')"
    and "\<not> py_truthy (custom_prompt a) \<Longrightarrow> Write_custom \<notin> set (calls_made w w')"
proof -
  have "(\<not> py_truthy (input_message a) \<longrightarrow> Write_input \<notin> set (calls_made w w')) \<and>
        (\<not> py_truthy (output_message a) \<longrightarrow> Write_output \<notin> set (calls_made w w')) \<and>
        (\<not> py_truthy (custom_prompt a) \<longrightarrow> Write_custom \<notin> set (calls_made w w'))"
  proof (cases "d Connect = None")
    case True
    obtain rb wb where
      body: "log_entry_try d a (Connection (next_conn w)) (connected self w) = (rb, wb)"
      by (cases "log_entry_try d a (Connection (next_conn w)) (connected self w)")
    from log_entry_try_no_write [OF body] show ?thesis
      by (simp add: log_entry_outcome(4) [OF True body assms])
  next
    case False
    from log_entry_not_acquired(1) [OF False assms] show ?thesis by simp
  qed
  then show "\<not> py_truthy (input_message a) \<Longrightarrow> Write_input \<notin> set (calls_made w w')"
    and "\<not> py_truthy (output_message a) \<Longrightarrow> Write_output \<notin> set (calls_made w w')"
    and "\<not> py_truthy (custom_prompt a) \<Longrightarrow> Write_custom \<notin> set (calls_made w w')"
    by simp_all
qed

lemma log_entry_lobs_created:
  assumes "log_entry d self a w = (Inr True, w')"
  shows "CreateLob_input \<in> set (calls_made w w')"
    and "CreateLob_output \<in> set (calls_made w w')"
    and "CreateLob_custom \<in> set (calls_made w w')"
proof -
  from assms obtain wb where
    body: "log_entry_try d a (Connection (next_conn w)) (connected self w) = (Inr True, wb)"
    and calls: "calls_made w w' = Connect # calls_made (connected self w) wb @ [Close]"
    by (rule log_entry_success)
  from log_entry_try_returned(4-6) [OF body]
  show "CreateLob_input \<in> set (calls_made w w')"
    and "CreateLob_output \<in> set (calls_made w w')"
    and "CreateLob_custom \<in> set (calls_made w w')"
    by (simp_all add: calls)
qed

subsection \<open>The \<open>try\<close> block of \<open>log_feedback\<close> on a working store\<close>

lemma log_feedback_try_working:
  assumes "d Cursor = None" and "d Execute = None" and "d Commit = None"
  shows "log_feedback_try d logid uid feedback rating cdate c w =
     (Inr True,
      w\<lparr>trace := trace w @ [Cursor, Execute, Commit],
        IntelliNotes_Feedback := IntelliNotes_Feedback w @ pending_feedback w @
          [\<lparr>fb_LOGID = logid, fb_USERID = uid, fb_USER_FEEDBACK = feedback,
            fb_USER_RATING = rating,
            fb_CREATED_DATE = (case cdate of Some t \<Rightarrow> t | None \<Rightarrow> clock w)\<rparr>],
        INTELLINOTES_LOG := INTELLINOTES_LOG w @ pending_log w,
        pending_log := [], pending_feedback := [],
        app_log := app_log w @
          [(INFO, ''Feedback logged successfully for LogID: '' @ str_int logid @
                  '', UserID: '' @ str_int uid @ ''.'', None)]\<rparr>)"
  using assms unfolding log_feedback_try_def driver_defs
  by (cases cdate) (simp_all add: bind_simps row_of_feedback_def)

subsection \<open>\<open>fetch_templates\<close>\<close>









section \<open>The claims\<close>




text \<open>
  Claim C2, as amended. For every credential triple: when \<open>oracledb.connect\<close> returns,
  \<open>get_connection\<close> returns the open handle; when it raises an
  \<open>oracledb.DatabaseError\<close>, \<open>get_connection\<close> logs the error with the exception and
  returns \<open>None\<close>; an exception of any other class is not caught by the handler and leaves
  \<open>get_connection\<close>.
\<close>

theorem get_connection_classes:
  "(d Connect = None \<longrightarrow>
      fst (get_connection d self w) = Inr (Some (Connection (next_conn w)))) \<and>
   (\<forall>m. d Connect = Some (DatabaseError m) \<longrightarrow>
      fst (get_connection d self w) = Inr None \<and>
      app_log (snd (get_connection d self w)) =
        app_log w @ [(ERROR, ''Database connection error'', Some (DatabaseError m))]) \<and>
   (\<forall>m. d Connect = Some (OtherException m) \<longrightarrow>
      fst (get_connection d self w) = Inl (OtherException m))"
  by (simp add: get_connection_ok get_connection_database_error get_connection_other)

text \<open>The three cases at the credentials of the test script.\<close>

theorem get_connection_classes_witness:
  "fst (get_connection no_faults test_self test_world) = Inr (Some (Connection 0)) \<and>
   fst (get_connection database_error_on_connect test_self test_world) = Inr None \<and>
   app_log (snd (get_connection database_error_on_connect test_self test_world)) =
     [(ERROR, ''Database connection error'', Some (DatabaseError ''ORA-12541''))] \<and>
   fst (get_connection interface_error_on_connect test_self test_world) =
     Inl (OtherException ''InterfaceError'')"
  using get_connection_classes [of no_faults test_self test_world]
    get_connection_classes [of database_error_on_connect test_self test_world]
    get_connection_classes [of interface_error_on_connect test_self test_world]
  by (simp add: fixture_defs)

text \<open>
  Claim C2 as stated fails: a connection failure that the driver raises outside the
  \<open>DatabaseError\<close> class passes the boundary of \<open>get_connection\<close>.
\<close>

theorem get_connection_raises_past_boundary:
  "fst (get_connection interface_error_on_connect test_self test_world) =
     Inl (OtherException ''InterfaceError'')"
  by (simp add: interface_error_on_connect_def get_connection_def oracledb_connect_def
      driver_call_def)

text \<open>
  Claim C3. When \<open>get_connection\<close> yields \<open>None\<close>, \<open>log_entry\<close> returns \<open>False\<close> having made no
  driver call after the failed \<open>connect\<close>, and \<open>INTELLINOTES_LOG\<close> is unchanged. When a
  connection is held, the statement is executed at most once, \<open>commit\<close> is called only after
  \<open>execute\<close> returned normally, and \<open>True\<close> is returned only after \<open>commit\<close> was called and
  returned normally. Whenever \<open>log_entry\<close> returns \<open>False\<close>, \<open>INTELLINOTES_LOG\<close> holds the rows
  it held before the call.
\<close>

theorem log_entry_commit_discipline:
  assumes "log_entry d self a w = (r, w')"
  shows
    "(fst (get_connection d self w) = Inr None \<longrightarrow>
        r = Inr False \<and> calls_made w w' = [Connect] \<and>
        INTELLINOTES_LOG w' = INTELLINOTES_LOG w) \<and>
     count_list (calls_made w w') Execute \<le> 1 \<and>
     (Commit \<in> set (calls_made w w') \<longrightarrow>
        Execute \<in> set (calls_made w w') \<and> d Execute = None) \<and>
     (r = Inr True \<longrightarrow> Commit \<in> set (calls_made w w') \<and> d Commit = None) \<and>
     (r = Inr False \<longrightarrow> INTELLINOTES_LOG w' = INTELLINOTES_LOG w)"
proof (cases "d Connect = None")
  case True
  obtain rb wb where
    body: "log_entry_try d a (Connection (next_conn w)) (connected self w) = (rb, wb)"
    by (cases "log_entry_try d a (Connection (next_conn w)) (connected self w)")
  note out = log_entry_outcome [OF True body assms]
  note commit = log_entry_try_commit [OF body]
  have acquired: "fst (get_connection d self w) \<noteq> Inr None"
    by (simp add: get_connection_ok True)
  have once: "count_list (calls_made w w') Execute \<le> 1"
    using commit(1) by (simp add: out(4))
  have after: "Commit \<in> set (calls_made w w') \<longrightarrow>
      Execute \<in> set (calls_made w w') \<and> d Execute = None"
    using commit(2) by (simp add: out(4))
  have success: "r = Inr True \<longrightarrow> Commit \<in> set (calls_made w w') \<and> d Commit = None"
  proof
    assume "r = Inr True"
    with out(1) have "rb = Inr True" by (cases "d Close"; cases rb) simp_all
    with body log_entry_try_returned(2,3) [of d a _ _ True wb] show
      "Commit \<in> set (calls_made w w') \<and> d Commit = None"
      by (simp add: out(4))
  qed
  have failure: "r = Inr False \<longrightarrow> INTELLINOTES_LOG w' = INTELLINOTES_LOG w"
  proof
    assume "r = Inr False"
    with out(1) consider e where "rb = Inl e" | "rb = Inr False"
      by (cases "d Close"; cases rb) simp_all
    then show "INTELLINOTES_LOG w' = INTELLINOTES_LOG w"
    proof cases
      case 1
      with body log_entry_try_raised [of d a _ _ e wb] show ?thesis
        by (simp add: out(2))
    next
      case 2
      with body log_entry_try_returned(1) [of d a _ _ False wb] show ?thesis
        by blast
    qed
  qed
  from acquired once after success failure show ?thesis by simp
next
  case False
  note early = log_entry_not_acquired [OF False assms]
  have "fst (get_connection d self w) = Inr None \<longrightarrow> r = Inr False"
    using early(5) get_connection_None [of d self w] by blast
  with early show ?thesis by simp
qed

text \<open>
  At the values of the test script: with the database unreachable, and with a connection
  on which \<open>commit\<close> raises.
\<close>

theorem log_entry_commit_discipline_witness:
  "fst (log_entry database_error_on_connect test_self test_entry test_world) = Inr False \<and>
   calls_made test_world
     (snd (log_entry database_error_on_connect test_self test_entry test_world)) = [Connect] \<and>
   INTELLINOTES_LOG
     (snd (log_entry database_error_on_connect test_self test_entry test_world)) = [] \<and>
   fst (log_entry commit_raises test_self test_entry test_world) = Inr False \<and>
   INTELLINOTES_LOG (snd (log_entry commit_raises test_self test_entry test_world)) = []"
proof -
  have unreachable:
    "fst (get_connection database_error_on_connect test_self test_world) = Inr None"
    by (simp add: get_connection_database_error database_error_on_connect_def)
  have failed: "fst (log_entry commit_raises test_self test_entry test_world) = Inr False"
    by (simp add: run_defs commit_raises_def no_faults_def test_entry_def)
  have empty: "INTELLINOTES_LOG test_world = []"
    by (simp add: test_world_def)
  show ?thesis
    using log_entry_commit_discipline [OF prod.collapse [symmetric],
        where d = database_error_on_connect and self = test_self and a = test_entry
        and w = test_world]
      log_entry_commit_discipline [OF prod.collapse [symmetric],
        where d = commit_raises and self = test_self and a = test_entry and w = test_world]
      unreachable failed empty
    by simp
qed

text \<open>
  Claim C4. In every run of \<open>log_entry\<close>, \<open>log_feedback\<close> and \<open>fetch_templates\<close>, whatever
  the driver does: \<open>connect\<close> is called once; when it returned a connection, \<open>close\<close> is
  called on it exactly once and is the last call of the run, on the normal path and when
  the \<open>try\<close> block raised; when no connection was obtained (the early return), \<open>close\<close> is
  not called. When \<open>close\<close> returns, the connection of this call is no longer open and no
  connection is open that was not open before the call.
\<close>

theorem connection_closed_exactly_once:
  assumes "log_entry d self a w = (r1, w1)"
    and "log_feedback d self logid uid feedback rating cdate w = (r2, w2)"
    and "fetch_templates d self w = (r3, w3)"
    and "w' \<in> {w1, w2, w3}"
  shows
    "count_list (calls_made w w') Connect = 1 \<and>
     count_list (calls_made w w') Close = (if d Connect = None then 1 else 0) \<and>
     (d Connect = None \<longrightarrow> last (calls_made w w') = Close) \<and>
     (d Close = None \<longrightarrow> set (open_conns w') \<subseteq> set (open_conns w)) \<and>
     (d Connect = None \<longrightarrow> d Close = None \<longrightarrow> next_conn w \<notin> fst ` set (open_conns w'))"
proof (cases d rule: get_connection_cases)
  case ok
  from assms(4) consider "w' = w1" | "w' = w2" | "w' = w3" by auto
  then show ?thesis
  proof cases
    case 1
    show ?thesis
      using closes_acquired [of d, OF ok within_log_entry_try log_entry_acquired [of d, OF ok]]
        assms(1) 1 by simp
  next
    case 2
    show ?thesis
      using closes_acquired [of d, OF ok within_log_feedback_try
          log_feedback_acquired [of d, OF ok]] assms(2) 2 by simp
  next
    case 3
    show ?thesis
      using closes_acquired [of d, OF ok within_fetch_templates_try
          fetch_templates_acquired [of d, OF ok]] assms(3) 3 by simp
  qed
next
  case (db m)
  then have ne: "d Connect \<noteq> None" by simp
  have "\<exists>l. w' = w\<lparr>trace := trace w @ [Connect], app_log := l\<rparr>"
    using assms db
    by (auto simp add: log_entry_unavailable log_feedback_unavailable
        fetch_templates_unavailable)
  then obtain l where "w' = w\<lparr>trace := trace w @ [Connect], app_log := l\<rparr>" ..
  then show ?thesis by (rule closes_not_acquired [where d = d, OF ne])
next
  case (other m)
  then have ne: "d Connect \<noteq> None" by simp
  have "w' = w\<lparr>trace := trace w @ [Connect], app_log := app_log w\<rparr>"
    using assms other
    by (auto simp add: log_entry_connect_raises log_feedback_connect_raises
        fetch_templates_connect_raises)
  then show ?thesis by (rule closes_not_acquired [where d = d, OF ne])
qed

text \<open>
  The exception path at the values of the test script: \<open>cursor.execute\<close> raises in
  \<open>log_entry\<close>, and \<open>close\<close> is still called once, last.
\<close>

theorem connection_closed_exactly_once_witness:
  "count_list (calls_made test_world
      (snd (log_entry execute_raises test_self test_entry test_world))) Connect = 1 \<and>
   count_list (calls_made test_world
      (snd (log_entry execute_raises test_self test_entry test_world))) Close = 1 \<and>
   last (calls_made test_world
      (snd (log_entry execute_raises test_self test_entry test_world))) = Close \<and>
   open_conns (snd (log_entry execute_raises test_self test_entry test_world)) = []"
  using connection_closed_exactly_once [where d = execute_raises and self = test_self
      and a = test_entry and w = test_world and logid = 5001 and uid = 101
      and feedback = "''ok''" and rating = 5 and cdate = None
      and ?r1.0 = "fst (log_entry execute_raises test_self test_entry test_world)"
      and ?w1.0 = "snd (log_entry execute_raises test_self test_entry test_world)"
      and ?r2.0 = "fst (log_feedback execute_raises test_self 5001 101 ''ok'' 5 None test_world)"
      and ?w2.0 = "snd (log_feedback execute_raises test_self 5001 101 ''ok'' 5 None test_world)"
      and ?r3.0 = "fst (fetch_templates execute_raises test_self test_world)"
      and ?w3.0 = "snd (fetch_templates execute_raises test_self test_world)"
      and w' = "snd (log_entry execute_raises test_self test_entry test_world)"]
  by (simp add: execute_raises_def no_faults_def test_world_def)

text \<open>
  Claim C5, as amended. After a successful \<open>log_entry\<close> the table \<open>INTELLINOTES_LOG\<close> holds
  one more row. Its \<open>LOGID\<close> is the sequence value; every scalar column holds the supplied
  value; \<open>CREATEDATE\<close> holds the supplied date, or the current time when none was
  supplied; each of the three large-text columns holds the supplied text unchanged when
  that text is not empty, and \<open>NULL\<close> when the argument is \<open>None\<close> or the empty string.
\<close>

theorem log_entry_round_trip:
  assumes "log_entry d self a w = (Inr True, w')"
  shows "INTELLINOTES_LOG w' = INTELLINOTES_LOG w @
      [\<lparr>LOGID = SQ_INTELLINOTES_LOG w,
        EVENT = event a,
        MODEL = model a,
        INPUT_MESSAGE = (if py_truthy (input_message a) then input_message a else None),
        OUTPUT_MESSAGE = (if py_truthy (output_message a) then output_message a else None),
        INPUT_TOKENS = input_tokens a,
        OUTPUT_TOKENS = output_tokens a,
        DURATION = duration a,
        ERRORMESSAGE = error_message a,
        USERID = user_id a,
        USER_RATING = user_rating a,
        USER_FEEDBACK = user_feedback a,
        CREATEDATE = (case created_date a of Some t \<Rightarrow> t | None \<Rightarrow> clock w),
        CUSTOM_PROMPT = (if py_truthy (custom_prompt a) then custom_prompt a else None)\<rparr>]"
  using assms by (rule log_entry_inserted_row)

text \<open>The call of the test script, on an empty table with the sequence at 1.\<close>

theorem log_entry_round_trip_witness:
  "INTELLINOTES_LOG (snd (log_entry no_faults test_self test_entry test_world)) =
     [\<lparr>LOGID = 1, EVENT = ''Test Log'', MODEL = ''Test Model'',
       INPUT_MESSAGE = Some ''Test input message'',
       OUTPUT_MESSAGE = Some ''Test output message'',
       INPUT_TOKENS = Some 100, OUTPUT_TOKENS = Some 50, DURATION = Some (11 / 5),
       ERRORMESSAGE = None, USERID = Some 1, USER_RATING = None, USER_FEEDBACK = None,
       CREATEDATE = 1730000000, CUSTOM_PROMPT = Some ''test prompt''\<rparr>]"
proof -
  have "fst (log_entry no_faults test_self test_entry test_world) = Inr True"
    by (simp add: run_defs no_faults_def test_entry_def)
  then have "log_entry no_faults test_self test_entry test_world =
      (Inr True, snd (log_entry no_faults test_self test_entry test_world))"
    by (simp add: prod_eq_iff)
  from log_entry_round_trip [OF this] show ?thesis
    by (simp add: test_entry_def test_world_def)
qed

text \<open>
  Claim C5 as stated fails: the call succeeds with the empty string supplied for
  \<open>input_message\<close>, and the row read back holds \<open>NULL\<close> in \<open>INPUT_MESSAGE\<close>, not the
  supplied value.
\<close>

theorem log_entry_empty_text_not_round_tripped:
  "fst (log_entry no_faults test_self empty_input_entry test_world) = Inr True \<and>
   input_message empty_input_entry = Some '''' \<and>
   INPUT_MESSAGE
     (last (INTELLINOTES_LOG (snd (log_entry no_faults test_self empty_input_entry test_world)))) =
     None"
  by (simp add: run_defs no_faults_def empty_input_entry_def test_entry_def test_world_def)

text \<open>
  Claim C6. The \<open>LOGID\<close> of the row that a successful \<open>log_entry\<close> inserts is the value of
  the store's sequence \<open>SQ_INTELLINOTES_LOG\<close> at the time of the call, and the sequence
  moves on by one. It does not depend on the arguments: two successful calls from the same
  state of the store, with any credentials and any arguments, give the same \<open>LOGID\<close>. The
  sequence never moves back, whatever the outcome of the call. When every \<open>LOGID\<close> in the
  table is below the sequence before the call, this is so after the call, the new \<open>LOGID\<close>
  is above every earlier one, and the identifiers stay distinct.
\<close>

theorem logid_from_sequence:
  assumes "log_entry d self a w = (r, w')" and "log_entry d2 self2 a2 w = (r2, w2)"
  shows
    "SQ_INTELLINOTES_LOG w \<le> SQ_INTELLINOTES_LOG w' \<and>
     (r = Inr True \<longrightarrow>
        LOGID (last (INTELLINOTES_LOG w')) = SQ_INTELLINOTES_LOG w \<and>
        butlast (INTELLINOTES_LOG w') = INTELLINOTES_LOG w \<and>
        SQ_INTELLINOTES_LOG w' = Suc (SQ_INTELLINOTES_LOG w)) \<and>
     (r = Inr True \<and> r2 = Inr True \<longrightarrow>
        LOGID (last (INTELLINOTES_LOG w')) = LOGID (last (INTELLINOTES_LOG w2))) \<and>
     (list_all (\<lambda>row. LOGID row < SQ_INTELLINOTES_LOG w) (INTELLINOTES_LOG w) \<longrightarrow>
        list_all (\<lambda>row. LOGID row < SQ_INTELLINOTES_LOG w') (INTELLINOTES_LOG w') \<and>
        (r = Inr True \<longrightarrow>
           list_all (\<lambda>row. LOGID row < LOGID (last (INTELLINOTES_LOG w')))
             (INTELLINOTES_LOG w)) \<and>
        (distinct (map LOGID (INTELLINOTES_LOG w)) \<longrightarrow>
           distinct (map LOGID (INTELLINOTES_LOG w'))))"
proof -
  have new: "LOGID (last (INTELLINOTES_LOG v')) = SQ_INTELLINOTES_LOG w \<and>
      butlast (INTELLINOTES_LOG v') = INTELLINOTES_LOG w \<and>
      SQ_INTELLINOTES_LOG v' = Suc (SQ_INTELLINOTES_LOG w)"
    if "log_entry d' self' a' w = (Inr True, v')" for d' self' a' v'
  proof -
    from that obtain wb where
      body: "log_entry_try d' a' (Connection (next_conn w)) (connected self' w) = (Inr True, wb)"
      and table: "INTELLINOTES_LOG v' = INTELLINOTES_LOG wb"
      and seq: "SQ_INTELLINOTES_LOG v' = SQ_INTELLINOTES_LOG wb"
      by (rule log_entry_success)
    from log_entry_try_row [OF body] log_entry_try_returned(7) [OF body] table seq
    show ?thesis by simp
  qed
  note shape = log_entry_table_shape [OF assms(1)]
  have first: "SQ_INTELLINOTES_LOG w \<le> SQ_INTELLINOTES_LOG w'"
    using shape by simp
  have second: "r = Inr True \<longrightarrow>
        LOGID (last (INTELLINOTES_LOG w')) = SQ_INTELLINOTES_LOG w \<and>
        butlast (INTELLINOTES_LOG w') = INTELLINOTES_LOG w \<and>
        SQ_INTELLINOTES_LOG w' = Suc (SQ_INTELLINOTES_LOG w)"
    using new [of d self a w'] assms(1) by simp
  have third: "r = Inr True \<and> r2 = Inr True \<longrightarrow>
        LOGID (last (INTELLINOTES_LOG w')) = LOGID (last (INTELLINOTES_LOG w2))"
    using new [of d self a w'] new [of d2 self2 a2 w2] assms by simp
  have fourth: "list_all (\<lambda>row. LOGID row < SQ_INTELLINOTES_LOG w') (INTELLINOTES_LOG w') \<and>
        (r = Inr True \<longrightarrow>
           list_all (\<lambda>row. LOGID row < LOGID (last (INTELLINOTES_LOG w')))
             (INTELLINOTES_LOG w)) \<and>
        (distinct (map LOGID (INTELLINOTES_LOG w)) \<longrightarrow>
           distinct (map LOGID (INTELLINOTES_LOG w')))"
    if inv: "list_all (\<lambda>row. LOGID row < SQ_INTELLINOTES_LOG w) (INTELLINOTES_LOG w)"
  proof -
    from shape consider "INTELLINOTES_LOG w' = INTELLINOTES_LOG w"
      | row where "INTELLINOTES_LOG w' = INTELLINOTES_LOG w @ [row]"
          "LOGID row = SQ_INTELLINOTES_LOG w"
          "SQ_INTELLINOTES_LOG w' = Suc (SQ_INTELLINOTES_LOG w)"
      by blast
    then show ?thesis
    proof cases
      case 1
      with inv first second show ?thesis
        by (auto simp add: list_all_iff)
    next
      case 2
      with inv second show ?thesis
        by (auto simp add: list_all_iff)
    qed
  qed
  from first second third fourth show ?thesis by blast
qed

text \<open>
  The call of the test script and a call with the empty input text, both from the same
  store with the sequence at 1.
\<close>

theorem logid_from_sequence_witness:
  "LOGID (last (INTELLINOTES_LOG (snd (log_entry no_faults test_self test_entry test_world)))) = 1 \<and>
   SQ_INTELLINOTES_LOG (snd (log_entry no_faults test_self test_entry test_world)) = 2 \<and>
   LOGID (last (INTELLINOTES_LOG
     (snd (log_entry no_faults test_self empty_input_entry test_world)))) = 1"
proof -
  have one: "log_entry no_faults test_self test_entry test_world =
      (Inr True, snd (log_entry no_faults test_self test_entry test_world))"
    by (simp add: prod_eq_iff run_defs no_faults_def test_entry_def)
  have two: "log_entry no_faults test_self empty_input_entry test_world =
      (Inr True, snd (log_entry no_faults test_self empty_input_entry test_world))"
    by (simp add: prod_eq_iff run_defs no_faults_def empty_input_entry_def test_entry_def)
  have seq: "SQ_INTELLINOTES_LOG test_world = 1"
    by (simp add: test_world_def)
  from logid_from_sequence [OF one two] logid_from_sequence [OF two one] seq
  show ?thesis by simp
qed





text \<open>
  Claim C9. With a working store (each of the five driver calls of \<open>log_feedback\<close> returns
  normally), \<open>log_feedback\<close> returns \<open>True\<close> for every \<open>logid\<close> and every \<open>user_rating\<close>, whatever
  rows \<open>INTELLINOTES_LOG\<close> holds: it appends the row with exactly the supplied values to
  \<open>IntelliNotes_Feedback\<close>, its driver calls are the connect, the cursor, the one insert, the
  commit and the close, with no query before the insert, and \<open>INTELLINOTES_LOG\<close> is left as
  it was.
\<close>

theorem log_feedback_unchecked:
  assumes "d Connect = None" and "d Cursor = None" and "d Execute = None"
    and "d Commit = None" and "d Close = None"
  shows
    "fst (log_feedback d self logid uid feedback rating cdate w) = Inr True \<and>
     IntelliNotes_Feedback (snd (log_feedback d self logid uid feedback rating cdate w)) =
       IntelliNotes_Feedback w @
         [\<lparr>fb_LOGID = logid, fb_USERID = uid, fb_USER_FEEDBACK = feedback,
           fb_USER_RATING = rating,
           fb_CREATED_DATE = (case cdate of Some t \<Rightarrow> t | None \<Rightarrow> clock w)\<rparr>] \<and>
     calls_made w (snd (log_feedback d self logid uid feedback rating cdate w)) =
       [Connect, Cursor, Execute, Commit, Close] \<and>
     INTELLINOTES_LOG (snd (log_feedback d self logid uid feedback rating cdate w)) =
       INTELLINOTES_LOG w"
  using assms
  by (simp add: log_feedback_acquired finally_close_ok try_except_def log_feedback_try_working
      calls_made_def cong: option.case_cong)

text \<open>
  The call of the test script on a store whose \<open>INTELLINOTES_LOG\<close> is empty, so that no row
  has the \<open>logid\<close> 5001, with the rating 9.
\<close>

theorem log_feedback_unchecked_witness:
  "INTELLINOTES_LOG test_world = [] \<and>
   fst (log_feedback no_faults test_self 5001 101
          ''The summary quality exceeded my expectations.'' 9 None test_world) = Inr True \<and>
   IntelliNotes_Feedback (snd (log_feedback no_faults test_self 5001 101
          ''The summary quality exceeded my expectations.'' 9 None test_world)) =
     [\<lparr>fb_LOGID = 5001, fb_USERID = 101,
       fb_USER_FEEDBACK = ''The summary quality exceeded my expectations.'',
       fb_USER_RATING = 9, fb_CREATED_DATE = 1730000000\<rparr>]"
  using log_feedback_unchecked [of no_faults test_self 5001 101
      "''The summary quality exceeded my expectations.''" 9 None test_world]
  by (simp add: no_faults_def test_world_def)

text \<open>
  Claim C10. When \<open>input_message\<close> is the empty string, the bind dictionary of \<open>log_entry\<close>
  holds \<open>None\<close> for \<open>input_message\<close>, whatever the large objects and the date are, and no
  run of \<open>log_entry\<close> calls \<open>write\<close> on the large object created for it; a successful run
  has created that large object and the row it inserts holds \<open>NULL\<close> in \<open>INPUT_MESSAGE\<close>.
  The same holds for \<open>output_message\<close> and for \<open>custom_prompt\<close>.
\<close>

theorem empty_text_bound_as_null:
  assumes "log_entry d self a w = (r, w')"
  shows
    "(input_message a = Some [] \<longrightarrow>
        b_input_message (log_entry_binds a l1 l2 l3 cd) = None \<and>
        Write_input \<notin> set (calls_made w w') \<and>
        (r = Inr True \<longrightarrow>
           CreateLob_input \<in> set (calls_made w w') \<and>
           INPUT_MESSAGE (last (INTELLINOTES_LOG w')) = None)) \<and>
     (output_message a = Some [] \<longrightarrow>
        b_output_message (log_entry_binds a l1 l2 l3 cd) = None \<and>
        Write_output \<notin> set (calls_made w w') \<and>
        (r = Inr True \<longrightarrow>
           CreateLob_output \<in> set (calls_made w w') \<and>
           OUTPUT_MESSAGE (last (INTELLINOTES_LOG w')) = None)) \<and>
     (custom_prompt a = Some [] \<longrightarrow>
        b_custom_prompt (log_entry_binds a l1 l2 l3 cd) = None \<and>
        Write_custom \<notin> set (calls_made w w') \<and>
        (r = Inr True \<longrightarrow>
           CreateLob_custom \<in> set (calls_made w w') \<and>
           CUSTOM_PROMPT (last (INTELLINOTES_LOG w')) = None))"
proof -
  note no_write = log_entry_no_write [OF assms]
  have row: "r = Inr True \<Longrightarrow>
      INPUT_MESSAGE (last (INTELLINOTES_LOG w')) =
        (if py_truthy (input_message a) then input_message a else None) \<and>
      OUTPUT_MESSAGE (last (INTELLINOTES_LOG w')) =
        (if py_truthy (output_message a) then output_message a else None) \<and>
      CUSTOM_PROMPT (last (INTELLINOTES_LOG w')) =
        (if py_truthy (custom_prompt a) then custom_prompt a else None)"
    using log_entry_inserted_row [of d self a w w'] assms by simp
  have created: "r = Inr True \<Longrightarrow>
      CreateLob_input \<in> set (calls_made w w') \<and>
      CreateLob_output \<in> set (calls_made w w') \<and>
      CreateLob_custom \<in> set (calls_made w w')"
    using log_entry_lobs_created [of d self a w w'] assms by simp
  show ?thesis
    using no_write row created by (auto simp add: log_entry_binds_def)
qed

text \<open>The call of the test script with the empty string for \<open>input_message\<close>.\<close>

theorem empty_text_bound_as_null_witness:
  "b_input_message (log_entry_binds empty_input_entry (Lob 0) (Lob 1) (Lob 2) 1730000000) = None \<and>
   Write_input \<notin> set (calls_made test_world
     (snd (log_entry no_faults test_self empty_input_entry test_world))) \<and>
   CreateLob_input \<in> set (calls_made test_world
     (snd (log_entry no_faults test_self empty_input_entry test_world))) \<and>
   INPUT_MESSAGE (last (INTELLINOTES_LOG
     (snd (log_entry no_faults test_self empty_input_entry test_world)))) = None"
proof -
  have empty: "input_message empty_input_entry = Some []"
    by (simp add: empty_input_entry_def)
  have success: "fst (log_entry no_faults test_self empty_input_entry test_world) = Inr True"
    by (simp add: run_defs no_faults_def empty_input_entry_def test_entry_def)
  from empty_text_bound_as_null [OF prod.collapse [symmetric],
      where d = no_faults and self = test_self and a = empty_input_entry and w = test_world
      and ?l1.0 = "Lob 0" and ?l2.0 = "Lob 1" and ?l3.0 = "Lob 2" and cd = 1730000000]
    empty success
  show ?thesis by simp
qed

end
